theory Spec2Isabelle
  imports Main
begin

section \<open>The schema declared by setup_database.py\<close>

text \<open>
  The program is a schema initializer: it opens a SQLite database, switches foreign-key
  enforcement on for its connection and executes nine \<^verbatim>\<open>CREATE TABLE IF NOT EXISTS\<close>
  statements. The statements are SQL text in the source; here each one is written as its
  syntax tree, column by column and clause by clause, in the order of the text.
\<close>

datatype sqltype = SqlInteger | SqlInt | Varchar nat | SqlDate | SqlTimestamp | SqlText

datatype default_value = DefaultInt int | DefaultCurrentTimestamp

datatype check_expr = CheckGe string int
  \<comment> \<open>\<^verbatim>\<open>CHECK (col >= k)\<close>, the only form of check in the source\<close>

datatype col_constraint =
    PrimaryKey
  | NotNull
  | Unique
  | Default default_value
  | Check check_expr

datatype column_def = Column string sqltype "col_constraint list"

datatype fk_action = Cascade | SetNull | Restrict

record foreign_key =
  fk_column :: string
  fk_ref_table :: string
  fk_ref_column :: string
  fk_on_delete :: fk_action

record table_def =
  tbl_name :: string
  tbl_columns :: "column_def list"
  tbl_foreign_keys :: "foreign_key list"

definition fk :: "string \<Rightarrow> string \<Rightarrow> string \<Rightarrow> fk_action \<Rightarrow> foreign_key" where
  "fk c t rc a = \<lparr>fk_column = c, fk_ref_table = t, fk_ref_column = rc, fk_on_delete = a\<rparr>"

definition sql_create_user_account_table :: table_def where
  "sql_create_user_account_table =
    \<lparr>tbl_name = ''UserAccount'',
     tbl_columns =
       [Column ''UserID'' SqlInteger [PrimaryKey],
        Column ''FullName'' (Varchar 255) [NotNull],
        Column ''Role'' (Varchar 100) [],
        Column ''Username'' (Varchar 100) [NotNull, Unique],
        Column ''PasswordHash'' (Varchar 255) [NotNull],
        Column ''AccessLevel'' (Varchar 50) []],
     tbl_foreign_keys = []\<rparr>"

definition sql_create_production_line_table :: table_def where
  "sql_create_production_line_table =
    \<lparr>tbl_name = ''ProductionLine'',
     tbl_columns =
       [Column ''ProductionLineID'' SqlInteger [PrimaryKey],
        Column ''LineName'' (Varchar 255) [NotNull, Unique],
        Column ''Status'' (Varchar 50) []],
     tbl_foreign_keys = []\<rparr>"

definition sql_create_production_batch_table :: table_def where
  "sql_create_production_batch_table =
    \<lparr>tbl_name = ''ProductionBatch'',
     tbl_columns =
       [Column ''BatchID'' SqlInteger [PrimaryKey],
        Column ''ProductionLineID'' SqlInt [NotNull],
        Column ''ShiftDate'' SqlDate [NotNull],
        Column ''ShiftType'' (Varchar 50) [],
        Column ''QuantityProduced'' SqlInt [NotNull, Check (CheckGe ''QuantityProduced'' 0)],
        Column ''CreatedByUserID'' SqlInt [],
        Column ''CreatedAt'' SqlTimestamp [Default DefaultCurrentTimestamp]],
     tbl_foreign_keys =
       [fk ''ProductionLineID'' ''ProductionLine'' ''ProductionLineID'' Cascade,
        fk ''CreatedByUserID'' ''UserAccount'' ''UserID'' SetNull]\<rparr>"

definition sql_create_inventory_item_table :: table_def where
  "sql_create_inventory_item_table =
    \<lparr>tbl_name = ''InventoryItem'',
     tbl_columns =
       [Column ''InventoryItemID'' SqlInteger [PrimaryKey],
        Column ''ItemType'' (Varchar 100) [],
        Column ''ItemName'' (Varchar 255) [NotNull, Unique],
        Column ''QuantityInStock'' SqlInt
          [NotNull, Default (DefaultInt 0), Check (CheckGe ''QuantityInStock'' 0)],
        Column ''ReorderThreshold'' SqlInt
          [Default (DefaultInt 0), Check (CheckGe ''ReorderThreshold'' 0)],
        Column ''LastUpdated'' SqlTimestamp [Default DefaultCurrentTimestamp]],
     tbl_foreign_keys = []\<rparr>"

definition sql_create_inventory_transaction_table :: table_def where
  "sql_create_inventory_transaction_table =
    \<lparr>tbl_name = ''InventoryTransaction'',
     tbl_columns =
       [Column ''TransactionID'' SqlInteger [PrimaryKey],
        Column ''InventoryItemID'' SqlInt [NotNull],
        Column ''BatchID'' SqlInt [],
        Column ''QuantityChange'' SqlInt [NotNull],
        Column ''Reason'' (Varchar 255) [],
        Column ''TransactionDate'' SqlTimestamp [Default DefaultCurrentTimestamp],
        Column ''UpdatedByUserID'' SqlInt []],
     tbl_foreign_keys =
       [fk ''InventoryItemID'' ''InventoryItem'' ''InventoryItemID'' Cascade,
        fk ''BatchID'' ''ProductionBatch'' ''BatchID'' SetNull,
        fk ''UpdatedByUserID'' ''UserAccount'' ''UserID'' SetNull]\<rparr>"

definition sql_create_defect_type_table :: table_def where
  "sql_create_defect_type_table =
    \<lparr>tbl_name = ''DefectType'',
     tbl_columns =
       [Column ''DefectTypeID'' SqlInteger [PrimaryKey],
        Column ''DefectName'' (Varchar 255) [NotNull, Unique]],
     tbl_foreign_keys = []\<rparr>"

definition sql_create_defect_log_table :: table_def where
  "sql_create_defect_log_table =
    \<lparr>tbl_name = ''DefectLog'',
     tbl_columns =
       [Column ''DefectID'' SqlInteger [PrimaryKey],
        Column ''BatchID'' SqlInt [NotNull],
        Column ''DefectTypeID'' SqlInt [NotNull],
        Column ''SeverityLevel'' (Varchar 50) [],
        Column ''DefectDescription'' SqlText [],
        Column ''LoggedByUserID'' SqlInt [],
        Column ''DateLogged'' SqlTimestamp [Default DefaultCurrentTimestamp]],
     tbl_foreign_keys =
       [fk ''BatchID'' ''ProductionBatch'' ''BatchID'' Cascade,
        fk ''DefectTypeID'' ''DefectType'' ''DefectTypeID'' Restrict,
        fk ''LoggedByUserID'' ''UserAccount'' ''UserID'' SetNull]\<rparr>"

definition sql_create_return_reason_table :: table_def where
  "sql_create_return_reason_table =
    \<lparr>tbl_name = ''ReturnReason'',
     tbl_columns =
       [Column ''ReturnReasonID'' SqlInteger [PrimaryKey],
        Column ''ReasonDescription'' (Varchar 255) [NotNull, Unique]],
     tbl_foreign_keys = []\<rparr>"

definition sql_create_return_log_table :: table_def where
  "sql_create_return_log_table =
    \<lparr>tbl_name = ''ReturnLog'',
     tbl_columns =
       [Column ''ReturnID'' SqlInteger [PrimaryKey],
        Column ''CustomerID'' SqlInt [],
        Column ''BatchID'' SqlInt [],
        Column ''ReturnReasonID'' SqlInt [],
        Column ''DateReturned'' SqlTimestamp [Default DefaultCurrentTimestamp],
        Column ''Notes'' SqlText [],
        Column ''ProcessedByUserID'' SqlInt []],
     tbl_foreign_keys =
       [fk ''BatchID'' ''ProductionBatch'' ''BatchID'' SetNull,
        fk ''ReturnReasonID'' ''ReturnReason'' ''ReturnReasonID'' SetNull,
        fk ''ProcessedByUserID'' ''UserAccount'' ''UserID'' SetNull]\<rparr>"

section \<open>The store and the outside world\<close>

text \<open>
  A database is the list of its tables in the order of their creation; a table is its
  declaration and its rows; a row gives a value to column names. SQLite is dynamically
  typed, so a value is null, an integer or a text whatever the column's declared type.
\<close>

datatype val = Null | IntV int | TextV string

type_synonym row = "(string \<times> val) list"

record table =
  t_def :: table_def
  t_rows :: "row list"

type_synonym database = "table list"

text \<open>
  The world the program runs in: the database stored at the location it is given, and the
  lines it has printed.
\<close>

record world =
  db :: database
  out :: "string list"

datatype sqlite_error = SqliteError string

fun error_message :: "sqlite_error \<Rightarrow> string" where
  "error_message (SqliteError m) = m"

text \<open>
  What the program cannot decide is a parameter: whether \<^verbatim>\<open>sqlite3.connect\<close>, the
  pragma, the n-th \<^verbatim>\<open>cursor.execute\<close> (counted from 0 in the order of the source) and
  \<^verbatim>\<open>conn.commit\<close> raise \<^verbatim>\<open>sqlite3.Error\<close>, the library's version string and what
  \<^verbatim>\<open>os.path.abspath\<close> returns.
\<close>

record env =
  connect_fault :: "sqlite_error option"
  pragma_fault :: "sqlite_error option"
  execute_fault :: "nat \<Rightarrow> sqlite_error option"
  commit_fault :: "sqlite_error option"
  sqlite_version :: string
  abspath :: "string \<Rightarrow> string"

record connection =
  conn_file :: string
  foreign_keys :: bool

definition print :: "string \<Rightarrow> world \<Rightarrow> world" where
  "print line w = w\<lparr>out := out w @ [line]\<rparr>"

definition table_names :: "database \<Rightarrow> string list" where
  "table_names d = map (\<lambda>t. tbl_name (t_def t)) d"

text \<open>
  \<^verbatim>\<open>CREATE TABLE IF NOT EXISTS\<close>: nothing happens when a table of that name exists,
  otherwise the table is added with no rows.
\<close>

definition create_table_if_not_exists :: "table_def \<Rightarrow> database \<Rightarrow> database" where
  "create_table_if_not_exists td d =
     (if tbl_name td \<in> set (table_names d) then d
      else d @ [\<lparr>t_def = td, t_rows = []\<rparr>])"

section \<open>create_connection, create_tables, main\<close>

definition DATABASE_FILENAME :: string where
  "DATABASE_FILENAME = ''inventory_management_v1.db''"

text \<open>
  \<^verbatim>\<open>conn\<close> starts as \<^verbatim>\<open>None\<close> and is assigned as soon as \<^verbatim>\<open>sqlite3.connect\<close> returns;
  the two prints and the pragma follow in the same \<^verbatim>\<open>try\<close>, whose handler prints the
  error. A connection of SQLite enforces foreign keys only after the pragma has run.
\<close>

definition create_connection :: "env \<Rightarrow> string \<Rightarrow> world \<Rightarrow> connection option \<times> world" where
  "create_connection e db_file w =
     (case connect_fault e of
        Some err \<Rightarrow> (None, print (error_message err) w)
      | None \<Rightarrow>
          (let w1 = print (''SQLite version: '' @ sqlite_version e) w;
               w2 = print (''Successfully connected to database: '' @ abspath e db_file) w1
           in case pragma_fault e of
                Some err \<Rightarrow>
                  (Some \<lparr>conn_file = db_file, foreign_keys = False\<rparr>,
                   print (error_message err) w2)
              | None \<Rightarrow> (Some \<lparr>conn_file = db_file, foreign_keys = True\<rparr>, w2)))"

text \<open>
  The body of the \<^verbatim>\<open>try\<close> in \<^verbatim>\<open>create_tables\<close> is a straight line of statements. The
  sqlite3 module opens no transaction before a \<^verbatim>\<open>CREATE TABLE\<close>, so each one takes effect
  on the database as it is executed, and the commit that follows has nothing pending.
\<close>

datatype stmt = Print string | Execute nat table_def | Commit

fun exec_stmt :: "env \<Rightarrow> stmt \<Rightarrow> world \<Rightarrow> sqlite_error option \<times> world" where
  "exec_stmt e (Print line) w = (None, print line w)"
| "exec_stmt e (Execute n td) w =
     (case execute_fault e n of
        Some err \<Rightarrow> (Some err, w)
      | None \<Rightarrow> (None, w\<lparr>db := create_table_if_not_exists td (db w)\<rparr>))"
| "exec_stmt e Commit w =
     (case commit_fault e of Some err \<Rightarrow> (Some err, w) | None \<Rightarrow> (None, w))"

text \<open>Statements run in order; the first one that raises ends the block.\<close>

fun run_try :: "env \<Rightarrow> stmt list \<Rightarrow> world \<Rightarrow> sqlite_error option \<times> world" where
  "run_try e [] w = (None, w)"
| "run_try e (s # ss) w =
     (case exec_stmt e s w of
        (Some err, w') \<Rightarrow> (Some err, w')
      | (None, w') \<Rightarrow> run_try e ss w')"

definition try_body :: "stmt list" where
  "try_body =
    [Print ''Creating table UserAccount...'',
     Execute 0 sql_create_user_account_table,
     Print ''Creating table ProductionLine...'',
     Execute 1 sql_create_production_line_table,
     Print ''Creating table ProductionBatch...'',
     Execute 2 sql_create_production_batch_table,
     Print ''Creating table InventoryItem...'',
     Execute 3 sql_create_inventory_item_table,
     Print ''Creating table InventoryTransaction...'',
     Execute 4 sql_create_inventory_transaction_table,
     Print ''Creating table DefectType...'',
     Execute 5 sql_create_defect_type_table,
     Print ''Creating table DefectLog...'',
     Execute 6 sql_create_defect_log_table,
     Print ''Creating table ReturnReason...'',
     Execute 7 sql_create_return_reason_table,
     Print ''Creating table ReturnLog...'',
     Execute 8 sql_create_return_log_table,
     Commit,
     Print ''All tables created successfully (if they didn't already exist).'']"

definition create_tables :: "env \<Rightarrow> connection \<Rightarrow> world \<Rightarrow> world" where
  "create_tables e conn w =
     (case run_try e try_body w of
        (None, w') \<Rightarrow> w'
      | (Some err, w') \<Rightarrow> print (''Error creating tables: '' @ error_message err) w')"

text \<open>\<^verbatim>\<open>os.path.join\<close> of a directory and a relative file name, on POSIX.\<close>

definition path_join :: "string \<Rightarrow> string \<Rightarrow> string" where
  "path_join dir name =
     (if dir = [] \<or> last dir = CHR ''/'' then dir @ name else dir @ ''/'' @ name)"

text \<open>Closing a connection with no open transaction leaves the database as it is.\<close>

definition conn_close :: "connection \<Rightarrow> world \<Rightarrow> world" where
  "conn_close conn w = w"

definition main :: "env \<Rightarrow> string \<Rightarrow> world \<Rightarrow> world" where
  "main e script_dir w =
     (let db_path = path_join script_dir DATABASE_FILENAME
      in case create_connection e db_path w of
           (Some conn, w1) \<Rightarrow>
             print (''Database setup complete. File saved at: '' @ db_path)
               (conn_close conn (create_tables e conn w1))
         | (None, w1) \<Rightarrow> print ''Error! Cannot create the database connection.'' w1)"

text \<open>The nine statements in the order \<^verbatim>\<open>create_tables\<close> executes them.\<close>

fun executed :: "stmt list \<Rightarrow> table_def list" where
  "executed [] = []"
| "executed (Execute n td # ss) = td # executed ss"
| "executed (s # ss) = executed ss"

text \<open>No statement of \<^verbatim>\<open>create_tables\<close> fails; nothing at all fails.\<close>

definition statements_ok :: "env \<Rightarrow> bool" where
  "statements_ok e =
     (commit_fault e = None \<and> list_all (\<lambda>n. execute_fault e n = None) [0 ..< 9])"

definition no_faults :: "env \<Rightarrow> bool" where
  "no_faults e = (connect_fault e = None \<and> pragma_fault e = None \<and> statements_ok e)"

definition fresh :: world where
  "fresh = \<lparr>db = [], out = []\<rparr>"


section \<open>Rows under the declared constraints\<close>

text \<open>
  Modelled from the spec: the storage engine (SQLite) that inserts, updates and deletes
  rows is not part of the repository. What follows interprets the declarations above the
  way the spec's data model and glossary describe the engine: a check constraint is
  enforced on every insert and update, a foreign key's delete action (cascade, set null,
  restrict) is applied by the engine when a referenced row is deleted, and that
  enforcement is a setting of the connection. Values are stored as given; the conversion
  of numeric-looking text by a column's affinity is not modelled.
\<close>

fun col_name :: "column_def \<Rightarrow> string" where
  "col_name (Column n ty cs) = n"

fun col_type :: "column_def \<Rightarrow> sqltype" where
  "col_type (Column n ty cs) = ty"

fun col_constraints :: "column_def \<Rightarrow> col_constraint list" where
  "col_constraints (Column n ty cs) = cs"

definition col_value :: "row \<Rightarrow> string \<Rightarrow> val" where
  "col_value r c = (case map_of r c of Some v \<Rightarrow> v | None \<Rightarrow> Null)"

definition set_value :: "string \<Rightarrow> val \<Rightarrow> row \<Rightarrow> row" where
  "set_value c v r = map (\<lambda>(k, x). if k = c then (k, v) else (k, x)) r"

definition find_table :: "database \<Rightarrow> string \<Rightarrow> table option" where
  "find_table d tn = find (\<lambda>t. tbl_name (t_def t) = tn) d"

definition rows_of :: "database \<Rightarrow> string \<Rightarrow> row list" where
  "rows_of d tn = (case find_table d tn of Some t \<Rightarrow> t_rows t | None \<Rightarrow> [])"

definition upd_rows :: "string \<Rightarrow> (row list \<Rightarrow> row list) \<Rightarrow> database \<Rightarrow> database" where
  "upd_rows tn f d =
     map (\<lambda>t. if tbl_name (t_def t) = tn then t\<lparr>t_rows := f (t_rows t)\<rparr> else t) d"

definition find_col :: "table_def \<Rightarrow> string \<Rightarrow> column_def option" where
  "find_col td c = find (\<lambda>col. col_name col = c) (tbl_columns td)"

definition pk_column :: "table_def \<Rightarrow> string option" where
  "pk_column td =
     map_option col_name (find (\<lambda>col. PrimaryKey \<in> set (col_constraints col)) (tbl_columns td))"

fun checks_of :: "col_constraint list \<Rightarrow> check_expr list" where
  "checks_of [] = []"
| "checks_of (Check ce # cs) = ce # checks_of cs"
| "checks_of (c # cs) = checks_of cs"

definition table_checks :: "table_def \<Rightarrow> check_expr list" where
  "table_checks td = concat (map (\<lambda>col. checks_of (col_constraints col)) (tbl_columns td))"

text \<open>
  Modelled from the spec: a check constraint rejects a row only when its condition is
  false; on a null the condition is unknown and the row passes, and SQLite orders every
  text above every number.
\<close>

fun check_holds :: "check_expr \<Rightarrow> row \<Rightarrow> bool" where
  "check_holds (CheckGe c k) r =
     (case col_value r c of IntV n \<Rightarrow> k \<le> n | Null \<Rightarrow> True | TextV s \<Rightarrow> True)"

fun default_of :: "string \<Rightarrow> col_constraint list \<Rightarrow> val" where
  "default_of now [] = Null"
| "default_of now (Default (DefaultInt k) # cs) = IntV k"
| "default_of now (Default DefaultCurrentTimestamp # cs) = TextV now"
| "default_of now (c # cs) = default_of now cs"

fun int_keys :: "val list \<Rightarrow> int list" where
  "int_keys [] = []"
| "int_keys (IntV n # vs) = n # int_keys vs"
| "int_keys (v # vs) = int_keys vs"

definition next_rowid :: "row list \<Rightarrow> string \<Rightarrow> int" where
  "next_rowid rs c =
     (case int_keys (map (\<lambda>r. col_value r c) rs) of
        [] \<Rightarrow> 1
      | k # ks \<Rightarrow> fold max ks k + 1)"

definition is_rowid_alias :: "column_def \<Rightarrow> bool" where
  "is_rowid_alias col = (col_type col = SqlInteger \<and> PrimaryKey \<in> set (col_constraints col))"

text \<open>
  Modelled from the spec: the row an insert stores has every column of the table, in the
  declared order: the given value, else the declared default, else null; an integer
  primary key that would be null is assigned by the engine.
\<close>

definition complete_row :: "string \<Rightarrow> table_def \<Rightarrow> row list \<Rightarrow> row \<Rightarrow> row" where
  "complete_row now td existing given =
     map (\<lambda>col.
            (col_name col,
             (let v = (case map_of given (col_name col) of
                         Some x \<Rightarrow> x
                       | None \<Rightarrow> default_of now (col_constraints col))
              in if v = Null \<and> is_rowid_alias col
                 then IntV (next_rowid existing (col_name col)) else v)))
         (tbl_columns td)"

fun first_some :: "'a option list \<Rightarrow> 'a option" where
  "first_some [] = None"
| "first_some (Some x # xs) = Some x"
| "first_some (None # xs) = first_some xs"

fun is_int :: "val \<Rightarrow> bool" where
  "is_int (IntV n) = True"
| "is_int v = False"

fun column_violation :: "row list \<Rightarrow> row \<Rightarrow> column_def \<Rightarrow> sqlite_error option" where
  "column_violation others r (Column c ty cs) =
     (let v = col_value r c
      in if NotNull \<in> set cs \<and> v = Null
         then Some (SqliteError (''NOT NULL constraint failed: '' @ c))
         else if \<not> list_all (\<lambda>ce. check_holds ce r) (checks_of cs)
         then Some (SqliteError (''CHECK constraint failed: '' @ c))
         else if (Unique \<in> set cs \<or> PrimaryKey \<in> set cs) \<and> v \<noteq> Null \<and>
                 v \<in> set (map (\<lambda>r'. col_value r' c) others)
         then Some (SqliteError (''UNIQUE constraint failed: '' @ c))
         else if ty = SqlInteger \<and> PrimaryKey \<in> set cs \<and> \<not> is_int v
         then Some (SqliteError ''datatype mismatch'')
         else None)"

definition fk_violation :: "database \<Rightarrow> row \<Rightarrow> foreign_key \<Rightarrow> sqlite_error option" where
  "fk_violation d r f =
     (let v = col_value r (fk_column f)
      in if v = Null \<or>
            v \<in> set (map (\<lambda>p. col_value p (fk_ref_column f)) (rows_of d (fk_ref_table f)))
         then None
         else Some (SqliteError ''FOREIGN KEY constraint failed''))"

text \<open>
  Modelled from the spec: \<^verbatim>\<open>INSERT INTO tn (columns) VALUES (values)\<close> on a connection.
  Not-null, check and uniqueness constraints are enforced on every connection, the
  existence of the referenced rows only where the connection enforces foreign keys.
\<close>

definition insert_row ::
  "connection \<Rightarrow> string \<Rightarrow> string \<Rightarrow> row \<Rightarrow> database \<Rightarrow> sqlite_error + database" where
  "insert_row conn now tn given d =
     (case find_table d tn of
        None \<Rightarrow> Inl (SqliteError (''no such table: '' @ tn))
      | Some t \<Rightarrow>
          (case find (\<lambda>(c, v). c \<notin> set (map col_name (tbl_columns (t_def t)))) given of
             Some (c, v) \<Rightarrow> Inl (SqliteError (''table '' @ tn @ '' has no column named '' @ c))
           | None \<Rightarrow>
               (let r = complete_row now (t_def t) (t_rows t) given
                in case first_some (map (column_violation (t_rows t) r) (tbl_columns (t_def t))) of
                     Some err \<Rightarrow> Inl err
                   | None \<Rightarrow>
                       (case (if foreign_keys conn
                              then first_some (map (fk_violation d r) (tbl_foreign_keys (t_def t)))
                              else None) of
                          Some err \<Rightarrow> Inl err
                        | None \<Rightarrow> Inr (upd_rows tn (\<lambda>rs. rs @ [r]) d)))))"

text \<open>The foreign keys of the database that reference table \<open>tn\<close>, with their tables.\<close>

definition references_to :: "database \<Rightarrow> string \<Rightarrow> (string \<times> foreign_key) list" where
  "references_to d tn =
     concat (map (\<lambda>t. map (\<lambda>f. (tbl_name (t_def t), f))
                        (filter (\<lambda>f. fk_ref_table f = tn) (tbl_foreign_keys (t_def t)))) d)"

definition parent_key_in_use :: "database \<Rightarrow> string \<Rightarrow> string \<Rightarrow> val \<Rightarrow> bool" where
  "parent_key_in_use d tn c old =
     (old \<noteq> Null \<and>
      list_ex (\<lambda>(child, f). fk_ref_column f = c \<and>
                 old \<in> set (map (\<lambda>r. col_value r (fk_column f)) (rows_of d child)))
        (references_to d tn))"

text \<open>
  Modelled from the spec: \<^verbatim>\<open>UPDATE tn SET c = v WHERE key = k\<close>, the key being the
  table's primary key. The constraints of the changed column are enforced on the new row;
  with foreign keys enforced, the new value must exist in the table it references, and a
  referenced value that rows still point to cannot be changed (no update action is
  declared in the source).
\<close>

definition update_row ::
  "connection \<Rightarrow> string \<Rightarrow> val \<Rightarrow> string \<Rightarrow> val \<Rightarrow> database \<Rightarrow> sqlite_error + database" where
  "update_row conn tn k c v d =
     (case find_table d tn of
        None \<Rightarrow> Inl (SqliteError (''no such table: '' @ tn))
      | Some t \<Rightarrow>
          (case find_col (t_def t) c of
             None \<Rightarrow> Inl (SqliteError (''no such column: '' @ c))
           | Some col \<Rightarrow>
               (case pk_column (t_def t) of
                  None \<Rightarrow> Inl (SqliteError (''no primary key: '' @ tn))
                | Some pk \<Rightarrow>
                    (let hit = (\<lambda>r. k \<noteq> Null \<and> col_value r pk = k);
                         targets = filter hit (t_rows t);
                         others = filter (\<lambda>r. \<not> hit r) (t_rows t)
                     in case first_some
                               (map (\<lambda>r. column_violation others (set_value c v r) col) targets) of
                          Some err \<Rightarrow> Inl err
                        | None \<Rightarrow>
                            if foreign_keys conn \<and>
                               (list_ex (\<lambda>r. list_ex (\<lambda>f. fk_column f = c \<and>
                                              fk_violation d (set_value c v r) f \<noteq> None)
                                           (tbl_foreign_keys (t_def t))) targets \<or>
                                list_ex (\<lambda>r. col_value r c \<noteq> v \<and>
                                              parent_key_in_use d tn c (col_value r c)) targets)
                            then Inl (SqliteError ''FOREIGN KEY constraint failed'')
                            else Inr (upd_rows tn
                                        (map (\<lambda>r. if hit r then set_value c v r else r)) d)))))"

text \<open>
  Modelled from the spec: deleting rows with foreign keys enforced. \<open>delete_where\<close>
  removes from table \<open>tn\<close> the rows whose column \<open>c\<close> holds one of the values \<open>vs\<close>
  and then applies, for every foreign key that references the table, its delete
  action to the rows that point to a removed row: restrict rejects the whole deletion,
  cascade deletes those rows in turn, set null overwrites the referencing column. SQLite
  runs the actions as triggers and bounds their nesting; \<open>depth\<close> is what is left of
  that bound.
\<close>

fun delete_where ::
    "nat \<Rightarrow> string \<Rightarrow> string \<Rightarrow> val list \<Rightarrow> database \<Rightarrow> sqlite_error + database"
  and apply_actions ::
    "nat \<Rightarrow> (string \<times> foreign_key) list \<Rightarrow> row list \<Rightarrow> database \<Rightarrow> sqlite_error + database"
where
  "delete_where 0 tn c vs d =
     (if filter (\<lambda>r. col_value r c \<in> set vs) (rows_of d tn) = [] then Inr d
      else Inl (SqliteError ''too many levels of trigger recursion''))"
| "delete_where (Suc n) tn c vs d =
     (let victims = filter (\<lambda>r. col_value r c \<in> set vs) (rows_of d tn)
      in if victims = [] then Inr d
         else apply_actions n (references_to d tn) victims
                (upd_rows tn (filter (\<lambda>r. col_value r c \<notin> set vs)) d))"
| "apply_actions n [] victims d = Inr d"
| "apply_actions n ((child, f) # rest) victims d =
     (let keys = filter (\<lambda>v. v \<noteq> Null) (map (\<lambda>r. col_value r (fk_ref_column f)) victims);
          pointing = (\<lambda>r. col_value r (fk_column f) \<in> set keys)
      in case (case fk_on_delete f of
                 Restrict \<Rightarrow>
                   if list_ex pointing (rows_of d child)
                   then Inl (SqliteError ''FOREIGN KEY constraint failed'')
                   else Inr d
               | Cascade \<Rightarrow> delete_where n child (fk_column f) keys d
               | SetNull \<Rightarrow>
                   if list_ex pointing (rows_of d child) \<and>
                      list_ex (\<lambda>t. tbl_name (t_def t) = child \<and>
                                 list_ex (\<lambda>col. col_name col = fk_column f \<and>
                                            NotNull \<in> set (col_constraints col))
                                   (tbl_columns (t_def t))) d
                   then Inl (SqliteError (''NOT NULL constraint failed: '' @ fk_column f))
                   else Inr (upd_rows child
                               (map (\<lambda>r. if pointing r
                                          then set_value (fk_column f) Null r else r)) d)) of
           Inl err \<Rightarrow> Inl err
         | Inr d' \<Rightarrow> apply_actions n rest victims d')"

definition max_trigger_depth :: nat where
  "max_trigger_depth = 1000"

text \<open>
  Modelled from the spec: \<^verbatim>\<open>DELETE FROM tn WHERE key = k\<close>. A connection that does not
  enforce foreign keys removes the row and nothing else.
\<close>

definition delete_row ::
  "connection \<Rightarrow> string \<Rightarrow> val \<Rightarrow> database \<Rightarrow> sqlite_error + database" where
  "delete_row conn tn k d =
     (case find_table d tn of
        None \<Rightarrow> Inl (SqliteError (''no such table: '' @ tn))
      | Some t \<Rightarrow>
          (case pk_column (t_def t) of
             None \<Rightarrow> Inl (SqliteError (''no primary key: '' @ tn))
           | Some pk \<Rightarrow>
               if k = Null then Inr d
               else if foreign_keys conn then delete_where max_trigger_depth tn pk [k] d
               else Inr (upd_rows tn (filter (\<lambda>r. col_value r pk \<noteq> k)) d)))"

text \<open>
  The states an application can reach: statements run one after the other, each on a
  connection of its own choice; a rejected statement leaves the database as it was.
\<close>

datatype dml =
    Insert connection string string row
  | Update connection string val string val
  | Delete connection string val

fun exec_dml :: "dml \<Rightarrow> database \<Rightarrow> sqlite_error + database" where
  "exec_dml (Insert conn now tn given) d = insert_row conn now tn given d"
| "exec_dml (Update conn tn k c v) d = update_row conn tn k c v d"
| "exec_dml (Delete conn tn k) d = delete_row conn tn k d"

definition step :: "dml \<Rightarrow> database \<Rightarrow> database" where
  "step x d = (case exec_dml x d of Inl err \<Rightarrow> d | Inr d' \<Rightarrow> d')"

definition run :: "dml list \<Rightarrow> database \<Rightarrow> database" where
  "run xs d = fold step xs d"

section \<open>What a run prints, and example environments\<close>

definition creating_lines :: "string list" where
  "creating_lines =
     [''Creating table UserAccount...'', ''Creating table ProductionLine...'',
      ''Creating table ProductionBatch...'', ''Creating table InventoryItem...'',
      ''Creating table InventoryTransaction...'', ''Creating table DefectType...'',
      ''Creating table DefectLog...'', ''Creating table ReturnReason...'',
      ''Creating table ReturnLog...'']"

definition success_line :: string where
  "success_line = ''All tables created successfully (if they didn't already exist).''"

definition connect_lines :: "env \<Rightarrow> string \<Rightarrow> string list" where
  "connect_lines e db_file =
     [''SQLite version: '' @ sqlite_version e,
      ''Successfully connected to database: '' @ abspath e db_file]"

definition success_output :: "env \<Rightarrow> string \<Rightarrow> string list" where
  "success_output e script_dir =
     connect_lines e (path_join script_dir DATABASE_FILENAME) @ creating_lines @
     [success_line,
      ''Database setup complete. File saved at: '' @ path_join script_dir DATABASE_FILENAME]"

definition nine_tables :: "table_def list" where
  "nine_tables =
     [sql_create_user_account_table, sql_create_production_line_table,
      sql_create_production_batch_table, sql_create_inventory_item_table,
      sql_create_inventory_transaction_table, sql_create_defect_type_table,
      sql_create_defect_log_table, sql_create_return_reason_table,
      sql_create_return_log_table]"



text \<open>An environment in which nothing fails, and three in which one call does.\<close>

definition ok_env :: env where
  "ok_env =
     \<lparr>connect_fault = None, pragma_fault = None, execute_fault = (\<lambda>n. None),
      commit_fault = None, sqlite_version = ''3.45.1'', abspath = (\<lambda>p. p)\<rparr>"

definition no_file_env :: env where
  "no_file_env = ok_env\<lparr>connect_fault := Some (SqliteError ''unable to open database file'')\<rparr>"



section \<open>Databases with the declared schema, and an example\<close>









definition not_enforcing :: connection where
  "not_enforcing = \<lparr>conn_file = ''x.db'', foreign_keys = False\<rparr>"

section \<open>Facts about the declarations\<close>

lemmas sql_defs =
  sql_create_user_account_table_def sql_create_production_line_table_def
  sql_create_production_batch_table_def sql_create_inventory_item_table_def
  sql_create_inventory_transaction_table_def sql_create_defect_type_table_def
  sql_create_defect_log_table_def sql_create_return_reason_table_def
  sql_create_return_log_table_def

lemma executed_try_body:
  "executed try_body =
     [sql_create_user_account_table, sql_create_production_line_table,
      sql_create_production_batch_table, sql_create_inventory_item_table,
      sql_create_inventory_transaction_table, sql_create_defect_type_table,
      sql_create_defect_log_table, sql_create_return_reason_table,
      sql_create_return_log_table]"
  by (simp add: try_body_def)

lemma table_names_create:
  "set (table_names (create_table_if_not_exists td d)) = insert (tbl_name td) (set (table_names d))"
  by (auto simp: create_table_if_not_exists_def table_names_def)

lemma create_present:
  "tbl_name td \<in> set (table_names d) \<Longrightarrow> create_table_if_not_exists td d = d"
  by (simp add: create_table_if_not_exists_def)

lemma names_fold_create:
  "set (table_names (fold create_table_if_not_exists tds d)) =
     set (map tbl_name tds) \<union> set (table_names d)"
  by (induction tds arbitrary: d) (auto simp: table_names_create)

lemma fold_create_present:
  "set (map tbl_name tds) \<subseteq> set (table_names d) \<Longrightarrow> fold create_table_if_not_exists tds d = d"
  by (induction tds arbitrary: d) (auto simp: create_present)

lemma fold_create_idem:
  "fold create_table_if_not_exists tds (fold create_table_if_not_exists tds d) =
     fold create_table_if_not_exists tds d"
  by (rule fold_create_present) (simp add: names_fold_create)

lemma statements_ok_exec:
  "statements_ok e \<Longrightarrow> execute_fault e 0 = None \<and> execute_fault e 1 = None \<and> execute_fault e 2 = None
    \<and> execute_fault e 3 = None \<and> execute_fault e 4 = None \<and> execute_fault e 5 = None
    \<and> execute_fault e 6 = None \<and> execute_fault e 7 = None \<and> execute_fault e 8 = None"
  by (simp add: statements_ok_def upt_rec numeral_eq_Suc del: upt_Suc)

lemma run_try_ok:
  assumes "statements_ok e"
  shows "run_try e try_body w =
    (None, w\<lparr>db := fold create_table_if_not_exists (executed try_body) (db w),
            out := out w @ creating_lines @ [success_line]\<rparr>)"
proof -
  have c: "commit_fault e = None" using assms by (simp add: statements_ok_def)
  show ?thesis
    using statements_ok_exec[OF assms] c
    by (simp add: try_body_def print_def creating_lines_def success_line_def)
qed

lemma create_tables_ok:
  assumes "statements_ok e"
  shows "create_tables e conn w =
    w\<lparr>db := fold create_table_if_not_exists (executed try_body) (db w),
            out := out w @ creating_lines @ [success_line]\<rparr>"
  by (simp add: create_tables_def run_try_ok[OF assms])

lemma create_connection_ok:
  assumes "no_faults e"
  shows "create_connection e f w =
     (Some \<lparr>conn_file = f, foreign_keys = True\<rparr>, w\<lparr>out := out w @ connect_lines e f\<rparr>)"
  using assms by (simp add: create_connection_def no_faults_def print_def connect_lines_def Let_def)

lemma main_ok:
  assumes "no_faults e"
  shows "main e script_dir w =
    w\<lparr>db := fold create_table_if_not_exists (executed try_body) (db w),
      out := out w @ success_output e script_dir\<rparr>"
proof -
  have s: "statements_ok e" using assms by (simp add: no_faults_def)
  show ?thesis
    by (simp add: main_def Let_def create_connection_ok[OF assms] create_tables_ok[OF s]
          conn_close_def print_def success_output_def)
qed



lemma fold_create_fresh:
  "distinct (map tbl_name tds) \<Longrightarrow> set (map tbl_name tds) \<inter> set (table_names d) = {} \<Longrightarrow>
   fold create_table_if_not_exists tds d = d @ map (\<lambda>td. \<lparr>t_def = td, t_rows = []\<rparr>) tds"
proof (induction tds arbitrary: d)
  case Nil
  then show ?case by simp
next
  case (Cons td tds)
  have 1: "create_table_if_not_exists td d = d @ [\<lparr>t_def = td, t_rows = []\<rparr>]"
    using Cons.prems by (simp add: create_table_if_not_exists_def)
  have 2: "set (map tbl_name tds) \<inter> set (table_names (d @ [\<lparr>t_def = td, t_rows = []\<rparr>])) = {}"
    using Cons.prems by (auto simp: table_names_def)
  show ?case using Cons.IH[OF _ 2] Cons.prems(1) by (simp add: 1)
qed

lemma nine_names:
  "map tbl_name nine_tables =
     [''UserAccount'', ''ProductionLine'', ''ProductionBatch'', ''InventoryItem'',
      ''InventoryTransaction'', ''DefectType'', ''DefectLog'', ''ReturnReason'', ''ReturnLog'']"
  by (simp add: nine_tables_def sql_defs)

lemma executed_nine: "executed try_body = nine_tables"
  by (simp add: try_body_def nine_tables_def)



lemma statements_ok_ok_env: "statements_ok ok_env"
  by (simp add: statements_ok_def ok_env_def list_all_iff)

lemma no_faults_ok_env: "no_faults ok_env"
  using statements_ok_ok_env by (simp add: no_faults_def) (simp add: ok_env_def)

lemma fold_nine_fresh:
  "fold create_table_if_not_exists nine_tables [] =
     map (\<lambda>td. \<lparr>t_def = td, t_rows = []\<rparr>) nine_tables"
proof -
  have d: "distinct (map tbl_name nine_tables)" by (simp add: nine_names)
  have "fold create_table_if_not_exists nine_tables [] =
      [] @ map (\<lambda>td. \<lparr>t_def = td, t_rows = []\<rparr>) nine_tables"
    by (rule fold_create_fresh[OF d]) (simp add: table_names_def)
  then show ?thesis by simp
qed

lemma table_names_nine:
  "table_names (map (\<lambda>td. \<lparr>t_def = td, t_rows = []\<rparr>) nine_tables) =
     [''UserAccount'', ''ProductionLine'', ''ProductionBatch'', ''InventoryItem'',
      ''InventoryTransaction'', ''DefectType'', ''DefectLog'', ''ReturnReason'', ''ReturnLog'']"
  by (simp add: table_names_def comp_def nine_names[symmetric])

lemma nine_table_names_fresh:
  "no_faults e \<Longrightarrow> table_names (db (main e script_dir fresh)) =
     [''UserAccount'', ''ProductionLine'', ''ProductionBatch'', ''InventoryItem'',
      ''InventoryTransaction'', ''DefectType'', ''DefectLog'', ''ReturnReason'', ''ReturnLog'']"
  by (simp add: main_ok executed_nine fresh_def fold_nine_fresh table_names_nine)

section \<open>The initializer\<close>

text \<open>
  Claim C1. Running the initializer twice against the same database, with nothing failing
  in the environment, succeeds both times: each run prints exactly the lines of a
  successful run and no error line, and the second run leaves the database, whatever it
  held before the first run, exactly as the first run left it.
\<close>

theorem initializer_idempotent:
  assumes "no_faults e"
  shows "main e script_dir (main e script_dir w) =
           (main e script_dir w)\<lparr>out := out w @ success_output e script_dir @ success_output e script_dir\<rparr>
         \<and> db (main e script_dir (main e script_dir w)) = db (main e script_dir w)
         \<and> out (main e script_dir w) = out w @ success_output e script_dir"
  by (simp add: main_ok[OF assms] fold_create_idem)

theorem initializer_idempotent_witness:
  "no_faults ok_env \<and>
   db (main ok_env ''/srv/app'' (main ok_env ''/srv/app'' fresh)) =
     db (main ok_env ''/srv/app'' fresh) \<and>
   table_names (db (main ok_env ''/srv/app'' (main ok_env ''/srv/app'' fresh))) =
     [''UserAccount'', ''ProductionLine'', ''ProductionBatch'', ''InventoryItem'',
      ''InventoryTransaction'', ''DefectType'', ''DefectLog'', ''ReturnReason'', ''ReturnLog'']"
  using initializer_idempotent [OF no_faults_ok_env, of "''/srv/app''" fresh]
    nine_table_names_fresh [OF no_faults_ok_env, of "''/srv/app''"] no_faults_ok_env
  by simp



text \<open>
  Claim C6. When opening or creating the database fails, \<open>create_connection\<close> prints the
  error's message and returns no connection; \<open>main\<close> then skips \<open>create_tables\<close>, prints
  that it cannot create the connection, and leaves the database as it was: no table is
  created.
\<close>

theorem connection_failure_creates_nothing:
  assumes "connect_fault e = Some err"
  shows "create_connection e db_file w = (None, w\<lparr>out := out w @ [error_message err]\<rparr>) \<and>
         main e script_dir w =
           w\<lparr>out := out w @ [error_message err, ''Error! Cannot create the database connection.'']\<rparr> \<and>
         db (main e script_dir w) = db w"
  using assms by (simp add: create_connection_def main_def print_def Let_def)

theorem connection_failure_creates_nothing_witness:
  "connect_fault no_file_env = Some (SqliteError ''unable to open database file'') \<and>
   fst (create_connection no_file_env ''/srv/app/x.db'' fresh) = None \<and>
   main no_file_env ''/srv/app'' fresh =
     \<lparr>db = [],
      out = [''unable to open database file'',
             ''Error! Cannot create the database connection.'']\<rparr>"
  using connection_failure_creates_nothing
    [of no_file_env "SqliteError ''unable to open database file''" "''/srv/app/x.db''" fresh
        "''/srv/app''"]
  by (simp add: no_file_env_def ok_env_def fresh_def)







section \<open>Facts about rows under the declared schema\<close>







lemma fk_sel [simp]:
  "fk_column (fk c t rc a) = c" "fk_ref_table (fk c t rc a) = t"
  "fk_ref_column (fk c t rc a) = rc" "fk_on_delete (fk c t rc a) = a"
  by (simp_all add: fk_def)
















section \<open>Foreign-key actions on delete\<close>





end
